theory Spec2Isabelle
  imports Complex_Main
begin

section \<open>Errors raised by the program and its libraries\<close>

datatype error =
    IndexError
  | KeyError string
  | ValueError
  | ZeroDivisionError
  | OverflowError
  | OutOfBoundsDatetime
  | UpstreamFetchFailure string

section \<open>fund.py\<close>

subsection \<open>The object store\<close>

text \<open>
  Python objects are mutable and shared by reference, and \<open>Fund.step\<close> hands objects to
  code it does not control, so the model keeps every object in an explicit store. A cell
  holds the attributes (or dictionary items) of one object; an attribute value is a number,
  a string, \<open>None\<close> or a reference to another cell. Cell \<open>a\<close> of the store \<open>h\<close> is
  \<open>h ! a\<close>; the allocated addresses are those below \<open>length h\<close>; allocation appends.
\<close>

type_synonym addr = nat

datatype pyval = PNum real | PStr string | PNone | PRef addr

type_synonym pyobj = "(string \<times> pyval) list"

type_synonym heap = "pyobj list"

fun refs_of_val :: "pyval \<Rightarrow> addr list" where
  "refs_of_val (PRef a) = [a]"
| "refs_of_val _ = []"

definition refs_of :: "pyobj \<Rightarrow> addr list" where
  "refs_of obj = concat (map (\<lambda>(k, v). refs_of_val v) obj)"

text \<open>
  \<open>reaches h r a\<close>: the cell \<open>a\<close> can be reached from the reference \<open>r\<close> by following
  references stored in cells of \<open>h\<close>. This is what a holder of \<open>r\<close> can read or write.
\<close>

inductive reaches :: "heap \<Rightarrow> addr \<Rightarrow> addr \<Rightarrow> bool" for h :: heap and r :: addr where
  reaches_root: "reaches h r r"
| reaches_step: "reaches h r a \<Longrightarrow> a < length h \<Longrightarrow> b \<in> set (refs_of (h ! a)) \<Longrightarrow> reaches h r b"

subsection \<open>copy.deepcopy\<close>

text \<open>
  \<open>deepcopy\<close> walks the object graph from its argument, depth first, keeping a memo of the
  objects already copied, and allocates one new object for each object it meets. The
  cells of the store are the objects that \<open>deepcopy\<close> copies: plain instances, dictionaries
  and lists. What it hands back uncopied (classes and their attributes, functions,
  modules, instances of a class that defines \<open>__deepcopy__\<close>) is not kept in the store.
  \<open>visit h wl vis\<close> is that walk: \<open>wl\<close> the references still to follow, \<open>vis\<close> the objects
  met so far, in the order they were met.
\<close>

function visit :: "heap \<Rightarrow> addr list \<Rightarrow> addr list \<Rightarrow> addr list" where
  "visit h [] vis = vis"
| "visit h (a # wl) vis =
     (if a \<in> set vis \<or> length h \<le> a then visit h wl vis
      else visit h (refs_of (h ! a) @ wl) (vis @ [a]))"
  by pat_completeness auto
termination
proof (relation "measures [\<lambda>(h, wl, vis). card ({..<length h} - set vis), \<lambda>(h, wl, vis). length wl]")
  show "wf (measures [\<lambda>(h, wl, vis). card ({..<length h} - set vis), \<lambda>(h, wl, vis). length wl])"
    by simp
next
  fix h :: heap and a :: addr and wl vis :: "addr list"
  show "((h, wl, vis), (h, a # wl, vis))
        \<in> measures [\<lambda>(h, wl, vis). card ({..<length h} - set vis), \<lambda>(h, wl, vis). length wl]"
    by simp
next
  fix h :: heap and a :: addr and wl vis :: "addr list"
  assume "\<not> (a \<in> set vis \<or> length h \<le> a)"
  then have a: "a \<in> {..<length h} - set vis"
    by simp
  have fin: "finite ({..<length h} - set vis)"
    by simp
  have eq: "{..<length h} - set (vis @ [a]) = ({..<length h} - set vis) - {a}"
    by auto
  have "card ({..<length h} - set (vis @ [a])) < card ({..<length h} - set vis)"
    unfolding eq using a fin by (rule card_Diff1_less [rotated])
  then show "((h, refs_of (h ! a) @ wl, vis @ [a]), (h, a # wl, vis))
        \<in> measures [\<lambda>(h, wl, vis). card ({..<length h} - set vis), \<lambda>(h, wl, vis). length wl]"
    by simp
qed

text \<open>
  The memo: the \<open>i\<close>-th object met is copied to the \<open>i\<close>-th address allocated by the copy.
\<close>

fun index_of :: "addr \<Rightarrow> addr list \<Rightarrow> nat" where
  "index_of a [] = 0"
| "index_of a (b # bs) = (if a = b then 0 else Suc (index_of a bs))"

fun copy_val :: "nat \<Rightarrow> addr list \<Rightarrow> pyval \<Rightarrow> pyval" where
  "copy_val n vis (PRef a) = PRef (n + index_of a vis)"
| "copy_val n vis v = v"

definition copy_obj :: "nat \<Rightarrow> addr list \<Rightarrow> pyobj \<Rightarrow> pyobj" where
  "copy_obj n vis obj = map (\<lambda>(k, v). (k, copy_val n vis v)) obj"

definition deepcopy :: "addr \<Rightarrow> heap \<Rightarrow> addr \<times> heap" where
  "deepcopy r h =
     (let vis = visit h [r] [];
          n = length h
      in (n + index_of r vis, h @ map (\<lambda>a. copy_obj n vis (h ! a)) vis))"

subsection \<open>The collaborators of a fund\<close>

text \<open>
  \<open>MarketAdapter\<close> and \<open>Strategy\<close> are imported by \<open>fund.py\<close> and defined elsewhere, so
  they are parameters of the model: each method is a function on the store. A method
  may read and write any cell and allocate new ones. \<open>'t\<close> is the type of the time
  handed to \<open>step\<close> (a \<open>datetime\<close> or a \<open>pd.Timestamp\<close>), \<open>'tr\<close> the type of a proposed
  trade.

  \<open>get_market_state\<close> returns a reference to the adapter's market state;
  \<open>estimate_total_value_usd\<close> stands for
  \<open>market_adapter.market_state.estimate_total_value_usd()\<close>; \<open>market_history\<close> is the
  reference held in the adapter's attribute of that name.
\<close>

record ('t, 'tr) market_adapter =
  get_market_state :: "'t \<Rightarrow> heap \<Rightarrow> addr \<times> heap"
  filter_and_execute :: "'tr list \<Rightarrow> heap \<Rightarrow> heap"
  estimate_total_value_usd :: "heap \<Rightarrow> real"
  market_history :: addr

text \<open>
  \<open>propose_trades\<close> takes the market state it is given, the market history and the store.
  Its result is a list of trades or \<open>None\<close>.
\<close>

record 'tr strategy =
  propose_trades :: "addr \<Rightarrow> addr \<Rightarrow> heap \<Rightarrow> 'tr list option \<times> heap"
  trade_interval :: int

record ('t, 'tr) fund =
  fund_strategy :: "'tr strategy"
  fund_market_adapter :: "('t, 'tr) market_adapter"
  fund_market_history :: addr

definition Fund :: "'tr strategy \<Rightarrow> ('t, 'tr) market_adapter \<Rightarrow> ('t, 'tr) fund" where
  "Fund strategy adapter =
     \<lparr>fund_strategy = strategy,
      fund_market_adapter = adapter,
      fund_market_history = market_history adapter\<rparr>"

subsection \<open>Fund.step\<close>

text \<open>
  The calls a step makes on its collaborators, in order, are returned with its result, so
  that what was called, and with what, can be stated.
\<close>

datatype ('t, 'tr) call =
    GetMarketState 't
  | ProposeTrades addr addr
  | FilterAndExecute "'tr list"
  | EstimateTotalValueUsd

text \<open>Python's truth value of the strategy's result: \<open>None\<close> and the empty list are false.\<close>

fun truthy :: "'tr list option \<Rightarrow> bool" where
  "truthy None = False"
| "truthy (Some []) = False"
| "truthy (Some (x # xs)) = True"

definition step ::
  "('t, 'tr) fund \<Rightarrow> 't \<Rightarrow> heap \<Rightarrow> real \<times> heap \<times> ('t, 'tr) call list" where
  "step self time h =
     (let (market_state, h1) = get_market_state (fund_market_adapter self) time h;
          (copied_market_state, h2) = deepcopy market_state h1;
          (proposed_trades, h3) =
             propose_trades (fund_strategy self) copied_market_state (fund_market_history self) h2;
          (h4, executed) =
             (case proposed_trades of
                Some (x # xs) \<Rightarrow>
                  (filter_and_execute (fund_market_adapter self) (x # xs) h3,
                   [FilterAndExecute (x # xs)])
              | _ \<Rightarrow> (h3, []));
          usd_value = estimate_total_value_usd (fund_market_adapter self) h4
      in (usd_value, h4,
          [GetMarketState time, ProposeTrades copied_market_state (fund_market_history self)]
            @ executed @ [EstimateTotalValueUsd]))"

subsection \<open>Fund.begin_backtest\<close>

text \<open>
  A \<open>pd.Timestamp\<close> is a 64-bit count of nanoseconds since 1970, whose least value stands
  for \<open>NaT\<close>; a date outside that range is refused. The argument is the instant that the
  date string denotes, in nanoseconds.
\<close>

definition Timestamp :: "int \<Rightarrow> error + int" where
  "Timestamp ns = (if - (2 ^ 63) < ns \<and> ns < 2 ^ 63 then Inr ns else Inl OutOfBoundsDatetime)"

text \<open>
  \<open>pd.date_range(start, end, freq)\<close> with a frequency of a whole number of seconds: the
  timestamps \<open>start\<close>, \<open>start + stride\<close>, ... that do not pass \<open>end\<close>, where \<open>stride\<close> is the
  frequency in nanoseconds. A negative frequency counts down from \<open>start\<close>. The stride
  is a 64-bit count as well, and the library divides by it, so a frequency of zero
  raises.
\<close>

function range_up :: "int \<Rightarrow> int \<Rightarrow> int \<Rightarrow> int list" where
  "range_up start end stride =
     (if 0 < stride \<and> start \<le> end then start # range_up (start + stride) end stride else [])"
  by pat_completeness auto
termination
  by (relation "measure (\<lambda>(start, end, stride). nat (end - start + 1))") auto

function range_down :: "int \<Rightarrow> int \<Rightarrow> int \<Rightarrow> int list" where
  "range_down start end stride =
     (if stride < 0 \<and> end \<le> start then start # range_down (start + stride) end stride else [])"
  by pat_completeness auto
termination
  by (relation "measure (\<lambda>(start, end, stride). nat (start - end + 1))") auto

definition date_range :: "int \<Rightarrow> int \<Rightarrow> int \<Rightarrow> error + int list" where
  "date_range start end freq =
     (let stride = freq * 1000000000
      in if stride < - (2 ^ 63) \<or> 2 ^ 63 \<le> stride then Inl OverflowError
         else if stride = 0 then Inl ZeroDivisionError
         else if 0 < stride then Inr (range_up start end stride)
         else Inr (range_down start end stride))"

text \<open>
  The generator's loop: one \<open>step\<close> per date, each on the store the previous one left.
  The result is the list of yielded values, the final store and the calls made.
\<close>

fun run_steps ::
  "('t, 'tr) fund \<Rightarrow> 't list \<Rightarrow> heap \<Rightarrow> real list \<times> heap \<times> ('t, 'tr) call list" where
  "run_steps self [] h = ([], h, [])"
| "run_steps self (date # dates) h =
     (let (val, h1, calls1) = step self date h;
          (vals, h2, calls2) = run_steps self dates h1
      in (val # vals, h2, calls1 @ calls2))"

definition begin_backtest ::
  "(int, 'tr) fund \<Rightarrow> int \<Rightarrow> int \<Rightarrow> heap \<Rightarrow> error + (real list \<times> heap \<times> (int, 'tr) call list)" where
  "begin_backtest self start_time end_time h =
     (case Timestamp start_time of
        Inl e \<Rightarrow> Inl e
      | Inr start \<Rightarrow>
          (case Timestamp end_time of
             Inl e \<Rightarrow> Inl e
           | Inr end \<Rightarrow>
               (case date_range start end (trade_interval (fund_strategy self)) of
                  Inl e \<Rightarrow> Inl e
                | Inr dates \<Rightarrow> Inr (run_steps self dates h))))"

text \<open>The times at which \<open>step\<close> was entered, read off the calls.\<close>

fun step_times :: "('t, 'tr) call list \<Rightarrow> 't list" where
  "step_times [] = []"
| "step_times (GetMarketState t # cs) = t # step_times cs"
| "step_times (_ # cs) = step_times cs"

section \<open>MarketHistory.py\<close>

subsection \<open>Floats, rows and frames\<close>

text \<open>
  A float is a real number or not a number. Arithmetic on \<open>NaN\<close> gives \<open>NaN\<close>, and
  \<open>NaN == 0\<close> is false. Rounding is not modelled. numpy divides by zero without raising
  and yields an infinity or \<open>NaN\<close>; the model has one value for both.
\<close>

datatype pyfloat = Fin real | NaN

fun fmul :: "pyfloat \<Rightarrow> pyfloat \<Rightarrow> pyfloat" where
  "fmul (Fin a) (Fin b) = Fin (a * b)"
| "fmul _ _ = NaN"

fun fdiv :: "pyfloat \<Rightarrow> pyfloat \<Rightarrow> pyfloat" where
  "fdiv (Fin a) (Fin b) = (if b = 0 then NaN else Fin (a / b))"
| "fdiv _ _ = NaN"

fun is_zero :: "pyfloat \<Rightarrow> bool" where
  "is_zero (Fin a) = (a = 0)"
| "is_zero NaN = False"

text \<open>
  A row (a dictionary, or one row of a frame as a \<open>pd.Series\<close>) lists its keys with their
  values. A \<open>pd.DataFrame\<close> is its index and its named columns, as in pandas. An index
  label is a \<open>datetime\<close> without time zone, counted in seconds.
\<close>

type_synonym row = "(string \<times> pyfloat) list"

record frame =
  index :: "real list"
  columns :: "(string \<times> pyfloat list) list"

definition get_column :: "frame \<Rightarrow> string \<Rightarrow> error + pyfloat list" where
  "get_column df key =
     (case map_of (columns df) key of None \<Rightarrow> Inl (KeyError key) | Some vs \<Rightarrow> Inr vs)"

definition set_column :: "frame \<Rightarrow> string \<Rightarrow> pyfloat list \<Rightarrow> frame" where
  "set_column df key vals =
     (if key \<in> set (map fst (columns df))
      then df\<lparr>columns := map (\<lambda>(c, vs). if c = key then (c, vals) else (c, vs)) (columns df)\<rparr>
      else df\<lparr>columns := columns df @ [(key, vals)]\<rparr>)"

definition drop_columns :: "frame \<Rightarrow> string list \<Rightarrow> error + frame" where
  "drop_columns df keys =
     (case filter (\<lambda>k. k \<notin> set (map fst (columns df))) keys of
        k # _ \<Rightarrow> Inl (KeyError k)
      | [] \<Rightarrow> Inr (df\<lparr>columns := filter (\<lambda>(c, vs). c \<notin> set keys) (columns df)\<rparr>))"

definition rename_column :: "frame \<Rightarrow> string \<Rightarrow> string \<Rightarrow> frame" where
  "rename_column df key new =
     df\<lparr>columns := map (\<lambda>(c, vs). (if c = key then new else c, vs)) (columns df)\<rparr>"

definition iterrows :: "frame \<Rightarrow> (real \<times> row) list" where
  "iterrows df =
     map (\<lambda>i. (index df ! i, map (\<lambda>(c, vs). (c, vs ! i)) (columns df))) [0..<length (index df)]"

text \<open>
  \<open>pd.DataFrame(records, dtype=float)\<close>: one column for each key met in the records, in
  the order first met; a record without the key has \<open>NaN\<close> there.
\<close>

definition DataFrame :: "row list \<Rightarrow> frame" where
  "DataFrame records =
     \<lparr>index = map real [0..<length records],
      columns =
        map (\<lambda>k. (k, map (\<lambda>r. case map_of r k of Some v \<Rightarrow> v | None \<Rightarrow> NaN) records))
          (rev (remdups (rev (concat (map (map fst) records)))))\<rparr>"

text \<open>
  \<open>Series.asof(where)\<close>: the last value that is not \<open>NaN\<close> among the entries whose label
  is at most \<open>where\<close>, \<open>NaN\<close> if there is none. The index must be sorted, and the
  library reads its first label, so an empty series raises.
\<close>

fun asof_scan :: "(real \<times> pyfloat) list \<Rightarrow> real \<Rightarrow> pyfloat \<Rightarrow> pyfloat" where
  "asof_scan [] wh acc = acc"
| "asof_scan ((t, v) # s) wh acc =
     (if t \<le> wh then asof_scan s wh (case v of NaN \<Rightarrow> acc | Fin x \<Rightarrow> Fin x) else acc)"

definition asof :: "(real \<times> pyfloat) list \<Rightarrow> real \<Rightarrow> error + pyfloat" where
  "asof s wh =
     (if \<not> sorted (map fst s) then Inl ValueError
      else if s = [] then Inl IndexError
      else Inr (asof_scan s wh NaN))"

subsection \<open>Chart points and the collaborators of the scraper\<close>

text \<open>
  The point written to the store. \<open>time\<close> is the label formatted by \<open>format_time\<close>, which
  drops the fraction of the second; \<open>currencyPair\<close> is the one tag; \<open>chart_fields\<close> is the entry
  \<open>'fields'\<close>.
\<close>

record chart =
  measurement :: string
  currencyPair :: string
  time :: int
  chart_fields :: row

definition format_time :: "real \<Rightarrow> int" where
  "format_time ts = \<lfloor>ts\<rfloor>"

text \<open>
  What the scraper calls and does not define: the market-cap site (\<open>requests.get\<close>), the
  exchange (\<open>Poloniex\<close>), the clock, the machine's offset from UTC (\<open>datetime.fromtimestamp\<close>
  and \<open>time.mktime\<close> use local time) and the store (\<open>InfluxDBClient\<close>), whose state has
  type \<open>'db\<close>. Each call may raise. \<open>time_time pair\<close> is the reading of \<open>time.time()\<close> taken
  when \<open>pair\<close> is scraped. \<open>query_latest\<close> is the query
  \<open>select * from scrapedChart order by time desc limit 1\<close> with \<open>get_points\<close>.
\<close>

record 'db env =
  requests_get :: "string \<Rightarrow> error + (string \<times> (real \<times> pyfloat) list) list"
  returnTicker :: "error + string list"
  returnChartData :: "string \<Rightarrow> int \<Rightarrow> real \<Rightarrow> real \<Rightarrow> error + row list"
  time_time :: "string \<Rightarrow> real"
  utc_offset :: real
  query_latest :: "'db \<Rightarrow> error + chart list"
  write_points :: "chart list \<Rightarrow> 'db \<Rightarrow> error + 'db"

subsection \<open>scrape_since_last_reading\<close>

definition historical :: "'db env \<Rightarrow> string \<Rightarrow> error + (string \<times> (real \<times> pyfloat) list) list" where
  "historical e ticker = requests_get e (''https://graphs.coinmarketcap.com/currencies/'' @ ticker)"

text \<open>
  \<open>market_cap\<close>: the index is read off the first key (milliseconds, as labels in seconds),
  each key gives a column. pandas refuses columns whose length is not that of the index.
\<close>

definition market_cap :: "(string \<times> (real \<times> pyfloat) list) list \<Rightarrow> error + frame" where
  "market_cap hist_ticker =
     (case hist_ticker of
        [] \<Rightarrow> Inr \<lparr>index = [], columns = []\<rparr>
      | (key0, vals0) # _ \<Rightarrow>
          if list_all (\<lambda>(key, vals). length vals = length vals0) hist_ticker
          then Inr \<lparr>index = map (\<lambda>t. fst t / 1000) vals0,
                    columns = map (\<lambda>(key, vals). (key, map snd vals)) hist_ticker\<rparr>
          else Inl ValueError)"

definition coin_history :: "'db env \<Rightarrow> string \<Rightarrow> error + frame" where
  "coin_history e ticker =
     (case historical e ticker of Inl err \<Rightarrow> Inl err | Inr hist_ticker \<Rightarrow> market_cap hist_ticker)"

definition scraped_chart :: "string \<Rightarrow> real \<times> row \<Rightarrow> chart" where
  "scraped_chart currency_pair r =
     \<lparr>measurement = ''scrapedChart'',
      currencyPair = currency_pair,
      time = format_time (fst r),
      chart_fields = snd r\<rparr>"

definition contemporary_usd_price :: "frame \<Rightarrow> real \<times> row \<Rightarrow> error + pyfloat" where
  "contemporary_usd_price btc_price_hist r =
     (case get_column btc_price_hist ''price_usd'' of
        Inl err \<Rightarrow> Inl err
      | Inr price_usd \<Rightarrow>
          (case asof (zip (index btc_price_hist) price_usd) (fst r) of
             Inl err \<Rightarrow> Inl err
           | Inr contemporary_btc_price \<Rightarrow>
               (case map_of (snd r) ''weightedAverage'' of
                  None \<Rightarrow> Inl (KeyError ''weightedAverage'')
                | Some weightedAverage \<Rightarrow> Inr (fmul weightedAverage contemporary_btc_price))))"

text \<open>\<open>ts_df.apply(f, axis=1)\<close>: \<open>f\<close> on each row in turn, stopping at the first error.\<close>

fun apply_rows :: "(real \<times> row \<Rightarrow> error + pyfloat) \<Rightarrow> (real \<times> row) list \<Rightarrow> error + pyfloat list" where
  "apply_rows f [] = Inr []"
| "apply_rows f (r # rs) =
     (case f r of
        Inl err \<Rightarrow> Inl err
      | Inr v \<Rightarrow> (case apply_rows f rs of Inl err \<Rightarrow> Inl err | Inr vs \<Rightarrow> Inr (v # vs)))"

text \<open>Rounding to the nearest integer, a tie to the even one, as Python rounds.\<close>

definition round_half_even :: "real \<Rightarrow> int" where
  "round_half_even x =
     (let f = \<lfloor>x\<rfloor>; d = x - of_int f
      in if d < 1 / 2 then f else if 1 / 2 < d then f + 1 else if even f then f else f + 1)"

text \<open>
  \<open>datetime.fromtimestamp(t)\<close>: the instant \<open>t\<close>, rounded to the microsecond, as a time of
  day in the machine's time zone, \<open>off\<close> seconds ahead of UTC.
\<close>

definition fromtimestamp :: "real \<Rightarrow> real \<Rightarrow> real" where
  "fromtimestamp off t = real_of_int (round_half_even (t * 1000000)) / 1000000 + off"

text \<open>\<open>datetime.fromtimestamp\<close> on each date; there is no date for \<open>NaN\<close>.\<close>

fun fromtimestamps :: "real \<Rightarrow> pyfloat list \<Rightarrow> error + real list" where
  "fromtimestamps off [] = Inr []"
| "fromtimestamps off (NaN # ts) = Inl ValueError"
| "fromtimestamps off (Fin t # ts) =
     (case fromtimestamps off ts of
        Inl err \<Rightarrow> Inl err
      | Inr ls \<Rightarrow> Inr (fromtimestamp off t # ls))"

text \<open>
  The labels of a frame indexed by time are, like a \<open>pd.Timestamp\<close>, 64-bit counts of
  nanoseconds. A label that does not fit is refused here; pandas refuses it at the latest
  when it is looked up in the reference series.
\<close>

definition DatetimeIndex :: "real list \<Rightarrow> error + real list" where
  "DatetimeIndex labels =
     (if list_all (\<lambda>l. - (2 ^ 63) < l * 1000000000 \<and> l * 1000000000 < 2 ^ 63) labels
      then Inr labels
      else Inl OutOfBoundsDatetime)"

text \<open>
  The loop at the end of \<open>historical_prices_of\<close>: a chart for each row, yielded unless
  its volume and its weighted average are both zero.
\<close>

fun yield_charts :: "string \<Rightarrow> (real \<times> row) list \<Rightarrow> error + chart list" where
  "yield_charts pair [] = Inr []"
| "yield_charts pair (r # rs) =
     (let chart = scraped_chart pair r
      in case map_of (chart_fields chart) ''volume'' of
           None \<Rightarrow> Inl (KeyError ''volume'')
         | Some volume \<Rightarrow>
             if is_zero volume
             then (case map_of (chart_fields chart) ''weightedAverage'' of
                     None \<Rightarrow> Inl (KeyError ''weightedAverage'')
                   | Some weightedAverage \<Rightarrow>
                       if is_zero weightedAverage then yield_charts pair rs
                       else (case yield_charts pair rs of
                               Inl err \<Rightarrow> Inl err | Inr cs \<Rightarrow> Inr (chart # cs)))
             else (case yield_charts pair rs of
                     Inl err \<Rightarrow> Inl err | Inr cs \<Rightarrow> Inr (chart # cs)))"

definition historical_prices_of ::
  "'db env \<Rightarrow> frame \<Rightarrow> string \<Rightarrow> int \<Rightarrow> real \<Rightarrow> real \<Rightarrow> error + chart list" where
  "historical_prices_of e btc_price_hist pair period start end =
     (case returnChartData e pair period start end of
        Inl err \<Rightarrow> Inl err
      | Inr ex_trades \<Rightarrow>
          (let ts_df = DataFrame ex_trades
           in case get_column ts_df ''date'' of
                Inl err \<Rightarrow> Inl err
              | Inr dates \<Rightarrow>
                  (case fromtimestamps (utc_offset e) dates of
                     Inl err \<Rightarrow> Inl err
                   | Inr datetimes \<Rightarrow>
                       (case DatetimeIndex datetimes of
                          Inl err \<Rightarrow> Inl err
                        | Inr labels \<Rightarrow>
                            (case drop_columns (ts_df\<lparr>index := labels\<rparr>) [''date''] of
                               Inl err \<Rightarrow> Inl err
                             | Inr ts_df1 \<Rightarrow>
                                 (case apply_rows (contemporary_usd_price btc_price_hist)
                                         (iterrows ts_df1) of
                                    Inl err \<Rightarrow> Inl err
                                  | Inr prices \<Rightarrow>
                                      yield_charts pair
                                        (iterrows (set_column ts_df1 ''price_usd'' prices))))))))"

definition marshall :: "frame \<Rightarrow> string \<Rightarrow> error + frame" where
  "marshall hist_df key =
     (case get_column hist_df ''price_usd'' of
        Inl err \<Rightarrow> Inl err
      | Inr price_usd \<Rightarrow>
          (case get_column hist_df ''price_btc'' of
             Inl err \<Rightarrow> Inl err
           | Inr price_btc \<Rightarrow>
               (let btc_to_usd = map2 fdiv price_usd price_btc
                in case get_column hist_df ''volume_usd'' of
                     Inl err \<Rightarrow> Inl err
                   | Inr volume_usd \<Rightarrow>
                       (case drop_columns
                               (set_column hist_df ''volume'' (map2 fdiv volume_usd btc_to_usd))
                               [''market_cap_by_available_supply'', ''volume_usd''] of
                          Inl err \<Rightarrow> Inl err
                        | Inr hist_df1 \<Rightarrow> Inr (rename_column hist_df1 key ''weightedAverage'')))))"

text \<open>
  The loop over the markets. An exception leaves the loop; what was written to the store
  before it stays written. The result is the error that ended the loop, if any, the store
  and the lines printed.
\<close>

fun scrape_markets ::
  "'db env \<Rightarrow> frame \<Rightarrow> real \<Rightarrow> string list \<Rightarrow> 'db \<Rightarrow> string list
     \<Rightarrow> error option \<times> 'db \<times> string list" where
  "scrape_markets e btc_price_hist latest_fetch_unix [] db out = (None, db, out)"
| "scrape_markets e btc_price_hist latest_fetch_unix (market # markets) db out =
     (case historical_prices_of e btc_price_hist market 900 latest_fetch_unix (time_time e market) of
        Inl err \<Rightarrow> (Some err, db, out)
      | Inr generator \<Rightarrow>
          (case write_points e generator db of
             Inl err \<Rightarrow> (Some err, db, out)
           | Inr db1 \<Rightarrow>
               scrape_markets e btc_price_hist latest_fetch_unix markets db1
                 (out @ [''scraped '' @ market])))"

definition scrape_since_last_reading :: "'db env \<Rightarrow> 'db \<Rightarrow> error option \<times> 'db \<times> string list" where
  "scrape_since_last_reading e client =
     (case coin_history e ''bitcoin'' of
        Inl err \<Rightarrow> (Some err, client, [])
      | Inr btc_price_hist \<Rightarrow>
          (case query_latest e client of
             Inl err \<Rightarrow> (Some err, client, [])
           | Inr [] \<Rightarrow> (Some IndexError, client, [])
           | Inr (latest # _) \<Rightarrow>
               (let latest_fetch_unix = real_of_int (time latest) - utc_offset e
                in case returnTicker e of
                     Inl err \<Rightarrow> (Some err, client, [])
                   | Inr markets \<Rightarrow>
                       (case scrape_markets e btc_price_hist latest_fetch_unix markets client [] of
                          (Some err, db1, out) \<Rightarrow> (Some err, db1, out)
                        | (None, db1, out) \<Rightarrow>
                            (case marshall btc_price_hist ''price_usd'' of
                               Inl err \<Rightarrow> (Some err, db1, out)
                             | Inr btc_rows \<Rightarrow>
                                 (case write_points e (map (scraped_chart ''USD_BTC'') (iterrows btc_rows)) db1 of
                                    Inl err \<Rightarrow> (Some err, db1, out)
                                  | Inr db2 \<Rightarrow> (None, db2, out @ [''scraped USD_BTC''])))))))"

definition scrape_latest :: "'db env \<Rightarrow> 'db \<Rightarrow> error option \<times> 'db \<times> string list" where
  "scrape_latest e client = scrape_since_last_reading e client"

section \<open>Fund.run_live\<close>

text \<open>Python's \<open>%\<close> on floats, for a divisor that is not zero.\<close>

definition py_mod :: "real \<Rightarrow> real \<Rightarrow> real" where
  "py_mod x y = x - y * of_int \<lfloor>x / y\<rfloor>"

text \<open>The argument of \<open>sleep\<close> in the loop: \<open>PERIOD - ((time() - start_time) % PERIOD)\<close>.\<close>

definition sleep_for :: "int \<Rightarrow> real \<Rightarrow> real \<Rightarrow> error + real" where
  "sleep_for PERIOD now start_time =
     (if PERIOD = 0 then Inl ZeroDivisionError
      else Inr (of_int PERIOD - py_mod (now - start_time) (of_int PERIOD)))"

text \<open>
  One record for each iteration of the loop that reached its end: the time handed to
  \<open>step\<close>, the value it returned, the reading of \<open>time()\<close> after it, and the time slept.
\<close>

record tick =
  cur_time :: real
  usd_val :: real
  woke_from :: real
  slept :: real

text \<open>
  The loop has no exit, so the model runs its first iterations: one for each element of
  \<open>busy\<close>, the time that passes in that iteration between reading the clock and computing
  the sleep. The state is the clock, the store of chart points and the object store. The
  result is the iterations completed, the error that ended the loop (if one did) and the
  state reached. \<open>sleep\<close> refuses a negative argument.
\<close>

fun run_live_loop ::
  "(real, 'tr) fund \<Rightarrow> 'db env \<Rightarrow> real \<Rightarrow> real list \<Rightarrow> real \<times> 'db \<times> heap
     \<Rightarrow> tick list \<times> error option \<times> (real \<times> 'db \<times> heap)" where
  "run_live_loop self e start_time [] st = ([], None, st)"
| "run_live_loop self e start_time (b # busy) (clock, db, h) =
     (case scrape_latest e db of
        (Some err, db1, out) \<Rightarrow> ([], Some err, (clock, db1, h))
      | (None, db1, out) \<Rightarrow>
          (let (usd, h1, calls) = step self clock h;
               now = clock + b
           in case sleep_for (trade_interval (fund_strategy self)) now start_time of
                Inl err \<Rightarrow> ([], Some err, (now, db1, h1))
              | Inr d \<Rightarrow>
                  if d < 0 then ([], Some ValueError, (now, db1, h1))
                  else (let (ticks, err, st) = run_live_loop self e start_time busy (now + d, db1, h1)
                        in (\<lparr>cur_time = clock, usd_val = usd, woke_from = now, slept = d\<rparr> # ticks,
                            err, st))))"

definition run_live ::
  "(real, 'tr) fund \<Rightarrow> 'db env \<Rightarrow> real \<Rightarrow> real list \<Rightarrow> 'db \<Rightarrow> heap
     \<Rightarrow> tick list \<times> error option \<times> (real \<times> 'db \<times> heap)" where
  "run_live self e start_time busy db h = run_live_loop self e start_time busy (start_time, db, h)"

section \<open>A small fund\<close>

text \<open>
  Concrete collaborators, for running the definitions. The store holds the adapter
  (cell 0), its market state (cell 1), the balances (cell 2, shared by both) and the
  market history (cell 3). Executing trades doubles the balance; the valuation is a
  thousand times the balance. \<open>meddler\<close> overwrites the market state it is handed and
  proposes one trade; \<open>idler\<close> proposes nothing.
\<close>

definition adapter0 :: "('t, string) market_adapter" where
  "adapter0 =
     \<lparr>get_market_state = (\<lambda>t h. (1, h)),
      filter_and_execute =
        (\<lambda>trades h. h[2 := map (\<lambda>(k, v). (k, case v of PNum x \<Rightarrow> PNum (2 * x) | _ \<Rightarrow> v)) (h ! 2)]),
      estimate_total_value_usd =
        (\<lambda>h. case map_of (h ! 2) ''BTC'' of Some (PNum x) \<Rightarrow> 1000 * x | _ \<Rightarrow> 0),
      market_history = 3\<rparr>"

definition heap0 :: heap where
  "heap0 =
     [[(''market_state'', PRef 1), (''balances'', PRef 2), (''market_history'', PRef 3)],
      [(''balances'', PRef 2), (''time'', PNone)],
      [(''BTC'', PNum 1)],
      []]"

definition meddler :: "string strategy" where
  "meddler =
     \<lparr>propose_trades = (\<lambda>market_state history h. (Some [''buy''], h[market_state := [(''balances'', PNone)]])),
      trade_interval = 3600\<rparr>"

definition idler :: "string strategy" where
  "idler =
     \<lparr>propose_trades = (\<lambda>market_state history h. (Some [], h)),
      trade_interval = 60\<rparr>"

text \<open>
  \<open>tamperer\<close> proposes nothing and overwrites the market history it is handed. \<open>adapter1\<close>
  is \<open>adapter0\<close> with a market state that reports what the market history holds.
\<close>

definition tamperer :: "string strategy" where
  "tamperer =
     \<lparr>propose_trades =
        (\<lambda>market_state history h. (Some [], h[history := [(''client'', PStr ''tampered'')]])),
      trade_interval = 3600\<rparr>"

definition adapter1 :: "('t, string) market_adapter" where
  "adapter1 =
     adapter0
       \<lparr>get_market_state :=
          (\<lambda>t h. (1, h[1 := [(''balances'', PRef 2),
                               (''charts'', case map_of (h ! 3) ''client'' of
                                              Some v \<Rightarrow> v | None \<Rightarrow> PNone)]]))\<rparr>"

section \<open>A small market\<close>

text \<open>
  Concrete collaborators for the scraper. The reference history has two samples, at the
  labels 0 and 1000 (seconds). Every pair has two candles: one at 900 and one with volume
  and weighted average zero at 1800. The store is the list of the points written, and
  its latest point is one of greatest time. In \<open>env1\<close> the exchange fails on the pair
  \<open>BTC_ETH\<close>, the first of the two pairs.
\<close>

definition bitcoin0 :: "(string \<times> (real \<times> pyfloat) list) list" where
  "bitcoin0 =
     [(''market_cap_by_available_supply'', [(0, Fin 100), (1000000, Fin 110)]),
      (''price_btc'', [(0, Fin 1), (1000000, Fin 1)]),
      (''price_usd'', [(0, Fin 1000), (1000000, Fin 2000)]),
      (''volume_usd'', [(0, Fin 5000), (1000000, Fin 8000)])]"

text \<open>The frame that \<open>market_cap\<close> builds from \<open>bitcoin0\<close>.\<close>

definition btc0 :: frame where
  "btc0 =
     \<lparr>index = [0, 1000],
      columns =
        [(''market_cap_by_available_supply'', [Fin 100, Fin 110]),
         (''price_btc'', [Fin 1, Fin 1]),
         (''price_usd'', [Fin 1000, Fin 2000]),
         (''volume_usd'', [Fin 5000, Fin 8000])]\<rparr>"

definition candles0 :: "row list" where
  "candles0 =
     [[(''date'', Fin 900), (''volume'', Fin 10), (''weightedAverage'', Fin (1 / 2))],
      [(''date'', Fin 1800), (''volume'', Fin 0), (''weightedAverage'', Fin 0)]]"

fun latest_point :: "chart list \<Rightarrow> chart list" where
  "latest_point [] = []"
| "latest_point (c # cs) =
     (case latest_point cs of
        [] \<Rightarrow> [c]
      | d # _ \<Rightarrow> if time c < time d then [d] else [c])"

definition env0 :: "chart list env" where
  "env0 =
     \<lparr>requests_get = (\<lambda>url. Inr bitcoin0),
      returnTicker = Inr [''BTC_ETH'', ''BTC_XMR''],
      returnChartData = (\<lambda>pair period start end. Inr candles0),
      time_time = (\<lambda>pair. 2000),
      utc_offset = 0,
      query_latest = (\<lambda>db. Inr (latest_point db)),
      write_points = (\<lambda>points db. Inr (db @ points))\<rparr>"

definition env1 :: "chart list env" where
  "env1 =
     env0\<lparr>returnChartData :=
            (\<lambda>pair period start end.
               if pair = ''BTC_ETH'' then Inl (UpstreamFetchFailure pair) else Inr candles0)\<rparr>"

text \<open>\<open>env2\<close> is \<open>env0\<close> on a machine two hours ahead of UTC.\<close>

definition env2 :: "chart list env" where
  "env2 = env0\<lparr>utc_offset := 7200\<rparr>"

definition db0 :: "chart list" where
  "db0 =
     [\<lparr>measurement = ''scrapedChart'', currencyPair = ''BTC_ETH'', time = 0,
       chart_fields = [(''volume'', Fin 3), (''weightedAverage'', Fin (1 / 4)), (''price_usd'', Fin 250)]\<rparr>]"

section \<open>Properties of the backtest driver\<close>

lemma step_times_append: "step_times (xs @ ys) = step_times xs @ step_times ys"
  by (induction xs rule: step_times.induct) auto

lemma step_times_step: "step_times (snd (snd (step self t h))) = [t]"
  by (simp add: step_def Let_def step_times_append split: prod.splits option.splits list.splits)

lemma run_steps_times:
  "step_times (snd (snd (run_steps self dates h))) = dates
   \<and> length (fst (run_steps self dates h)) = length dates"
proof (induction dates arbitrary: h)
  case Nil
  then show ?case by simp
next
  case (Cons d ds)
  obtain v h1 c1 where s: "step self d h = (v, h1, c1)"
    by (cases "step self d h") auto
  obtain vs h2 c2 where r: "run_steps self ds h1 = (vs, h2, c2)"
    by (cases "run_steps self ds h1") auto
  have "step_times c1 = [d]"
    using step_times_step [of self d h] s by simp
  moreover have "step_times c2 = ds \<and> length vs = length ds"
    using Cons.IH [of h1] r by simp
  ultimately show ?case
    using s r by (simp add: step_times_append)
qed

lemma n_dates_Suc:
  assumes "0 < freq" "start \<le> end"
  shows "nat ((end - start) div freq + 1) = Suc (nat ((end - (start + freq)) div freq + 1))"
proof -
  have "(end - start) div freq = (end - (start + freq)) div freq + 1"
    using assms(1)
    by (metis add.commute add_diff_cancel_left' div_add_self2 less_irrefl diff_add_eq diff_diff_eq)
  moreover have "0 \<le> (end - start) div freq"
    using assms by (simp add: pos_imp_zdiv_nonneg_iff)
  ultimately show ?thesis
    by simp
qed

lemma n_dates_0:
  assumes "0 < freq" "end < start"
  shows "nat ((end - start) div freq + 1) = 0"
proof -
  have "(end - start) div freq < 0"
    using assms by (simp add: div_neg_pos_less0)
  then show ?thesis
    by simp
qed

lemma map_grid_Suc:
  "map (\<lambda>k. start + int k * freq) [0..<Suc n]
   = start # map (\<lambda>k. start + freq + int k * freq) [0..<n]"
proof -
  have "[0..<Suc n] = 0 # map Suc [0..<n]"
    by (simp add: upt_conv_Cons map_Suc_upt del: upt_Suc)
  then show ?thesis
    by (simp add: algebra_simps del: upt_Suc)
qed

lemma range_up_eq:
  "0 < freq \<Longrightarrow>
   range_up start end freq
   = map (\<lambda>k. start + int k * freq) [0..<nat ((end - start) div freq + 1)]"
proof (induction start "end" freq rule: range_up.induct)
  case (1 start "end" freq)
  show ?case
  proof (cases "start \<le> end")
    case False
    then show ?thesis
      using 1(2) n_dates_0 [of freq "end" start] by simp
  next
    case True
    have "range_up start end freq = start # range_up (start + freq) end freq"
      using True 1(2) by simp
    also have "\<dots> = start # map (\<lambda>k. start + freq + int k * freq)
                              [0..<nat ((end - (start + freq)) div freq + 1)]"
      using 1 True by simp
    also have "\<dots> = map (\<lambda>k. start + int k * freq) [0..<nat ((end - start) div freq + 1)]"
      unfolding n_dates_Suc [OF 1(2) True] map_grid_Suc ..
    finally show ?thesis .
  qed
qed

lemma range_down_eq:
  "stride < 0 \<Longrightarrow>
   range_down start end stride
   = map (\<lambda>k. start + int k * stride) [0..<nat ((end - start) div stride + 1)]"
proof (induction start "end" stride rule: range_down.induct)
  case (1 start "end" stride)
  show ?case
  proof (cases "end \<le> start")
    case False
    then have "(end - start) div stride < 0"
      using 1(2) False by (simp add: neg_imp_zdiv_neg_iff)
    then show ?thesis
      using False 1(2) by simp
  next
    case True
    have "(end - start) div stride = (end - (start + stride)) div stride + 1"
      using 1(2)
      by (metis add.commute add_diff_cancel_left' div_add_self2 less_irrefl diff_add_eq diff_diff_eq)
    moreover have "0 \<le> (end - start) div stride"
      using 1(2) True by (simp add: neg_imp_zdiv_nonneg_iff)
    ultimately have n: "nat ((end - start) div stride + 1)
                        = Suc (nat ((end - (start + stride)) div stride + 1))"
      by simp
    have "range_down start end stride = start # range_down (start + stride) end stride"
      using True 1(2) by simp
    also have "\<dots> = start # map (\<lambda>k. start + stride + int k * stride)
                              [0..<nat ((end - (start + stride)) div stride + 1)]"
      using 1 True by simp
    also have "\<dots> = map (\<lambda>k. start + int k * stride) [0..<nat ((end - start) div stride + 1)]"
      unfolding n map_grid_Suc ..
    finally show ?thesis .
  qed
qed

lemma date_range_grid:
  assumes "freq \<noteq> 0" and "- (2 ^ 63) \<le> freq * 1000000000" and "freq * 1000000000 < 2 ^ 63"
  shows "date_range start end freq
         = Inr (map (\<lambda>k. start + int k * (freq * 1000000000))
                  [0..<nat ((end - start) div (freq * 1000000000) + 1)])"
proof (cases "0 < freq")
  case True
  then have "0 < freq * 1000000000"
    by simp
  then show ?thesis
    using assms range_up_eq [of "freq * 1000000000" start "end"]
    by (simp add: date_range_def Let_def)
next
  case False
  then have "freq * 1000000000 < 0"
    using assms(1) by simp
  then show ?thesis
    using assms range_down_eq [of "freq * 1000000000" start "end"]
    by (simp add: date_range_def Let_def)
qed

lemma run_steps_foldl:
  "foldl (\<lambda>(vals, h, calls) date.
            (vals @ [fst (step self date h)],
             fst (snd (step self date h)),
             calls @ snd (snd (step self date h))))
     (vals0, h, calls0) dates
   = (vals0 @ fst (run_steps self dates h),
      fst (snd (run_steps self dates h)),
      calls0 @ snd (snd (run_steps self dates h)))"
proof (induction dates arbitrary: vals0 h calls0)
  case Nil
  then show ?case by simp
next
  case (Cons d ds)
  obtain v h1 c1 where s: "step self d h = (v, h1, c1)"
    by (cases "step self d h") auto
  obtain vs h2 c2 where r: "run_steps self ds h1 = (vs, h2, c2)"
    by (cases "run_steps self ds h1") auto
  show ?case
    using Cons.IH [of "vals0 @ [v]" h1 "calls0 @ c1"] s r by simp
qed

text \<open>
  C7, as the code has it. For a start and an end that a \<open>pd.Timestamp\<close> can hold and a
  trade interval that is not zero (and fits in 64 bits as nanoseconds), \<open>begin_backtest\<close>
  returns, and what it returns is one \<open>step\<close> for each of the timestamps \<open>start\<close>,
  \<open>start + interval\<close>, \<open>start + 2 * interval\<close>, ..., in this order and as long as \<open>end\<close> is not
  passed, each step on the store that the one before it left: \<open>(end - start) div interval + 1\<close>
  timestamps, none if that is not positive. The values yielded are those of the steps.
  The timestamps are given by \<open>start\<close>, \<open>end\<close> and the interval alone, whatever the fund and the
  store, so a second call with the same three yields the same sequence. A negative
  interval counts down from \<open>start\<close>.
\<close>

theorem begin_backtest_timestamps:
  assumes "trade_interval (fund_strategy self) \<noteq> 0"
      and "- (2 ^ 63) \<le> trade_interval (fund_strategy self) * 1000000000"
      and "trade_interval (fund_strategy self) * 1000000000 < 2 ^ 63"
      and "- (2 ^ 63) < start" and "start < 2 ^ 63"
      and "- (2 ^ 63) < end" and "end < 2 ^ 63"
  shows "begin_backtest self start end h
           = Inr (foldl (\<lambda>(vals, h, calls) date.
                          (vals @ [fst (step self date h)],
                           fst (snd (step self date h)),
                           calls @ snd (snd (step self date h))))
                    ([], h, [])
                    (map (\<lambda>k. start + int k * (trade_interval (fund_strategy self) * 1000000000))
                       [0..<nat ((end - start) div (trade_interval (fund_strategy self) * 1000000000) + 1)]))
       \<and> (\<exists>vals h' calls.
             begin_backtest self start end h = Inr (vals, h', calls)
           \<and> step_times calls
               = map (\<lambda>k. start + int k * (trade_interval (fund_strategy self) * 1000000000))
                   [0..<nat ((end - start) div (trade_interval (fund_strategy self) * 1000000000) + 1)]
           \<and> length vals = length (step_times calls))"
proof -
  let ?stride = "trade_interval (fund_strategy self) * 1000000000"
  let ?dates = "map (\<lambda>k. start + int k * ?stride) [0..<nat ((end - start) div ?stride + 1)]"
  have d: "date_range start end (trade_interval (fund_strategy self)) = Inr ?dates"
    using assms(1,2,3) by (rule date_range_grid)
  have b: "begin_backtest self start end h = Inr (run_steps self ?dates h)"
    using assms(4,5,6,7) d by (simp add: begin_backtest_def Timestamp_def)
  obtain vals h' calls where r: "run_steps self ?dates h = (vals, h', calls)"
    by (cases "run_steps self ?dates h") auto
  have t: "step_times calls = ?dates \<and> length vals = length ?dates"
    using run_steps_times [of self ?dates h] r by simp
  have f: "foldl (\<lambda>(vals, h, calls) date.
                          (vals @ [fst (step self date h)],
                           fst (snd (step self date h)),
                           calls @ snd (snd (step self date h))))
                    ([], h, []) ?dates = run_steps self ?dates h"
    using run_steps_foldl [of self "[]" h "[]" ?dates] by simp
  have "begin_backtest self start end h = Inr (vals, h', calls)
           \<and> step_times calls = ?dates \<and> length vals = length (step_times calls)"
    using b r t by simp
  then have "\<exists>vals h' calls.
             begin_backtest self start end h = Inr (vals, h', calls)
           \<and> step_times calls = ?dates \<and> length vals = length (step_times calls)"
    by blast
  then show ?thesis
    using b f by simp
qed

theorem begin_backtest_timestamps_witness:
  "trade_interval (fund_strategy (Fund meddler adapter0 :: (int, string) fund)) \<noteq> 0
   \<and> (\<exists>vals h' calls.
         begin_backtest (Fund meddler adapter0) 0 7200000000000 heap0 = Inr (vals, h', calls)
       \<and> step_times calls = [0, 3600000000000, 7200000000000]
       \<and> length vals = 3)"
proof -
  let ?f = "Fund meddler adapter0 :: (int, string) fund"
  have p: "trade_interval (fund_strategy ?f) = 3600"
    by (simp add: Fund_def meddler_def)
  have a1: "trade_interval (fund_strategy ?f) \<noteq> 0"
    and a2: "- (2 ^ 63) \<le> trade_interval (fund_strategy ?f) * 1000000000"
    and a3: "trade_interval (fund_strategy ?f) * 1000000000 < 2 ^ 63"
    by (simp_all add: p)
  have a4: "- (2 ^ 63) < (0::int)" and a5: "(0::int) < 2 ^ 63"
    and a6: "- (2 ^ 63) < (7200000000000::int)" and a7: "(7200000000000::int) < 2 ^ 63"
    by simp_all
  have g: "map (\<lambda>k. 0 + int k * (trade_interval (fund_strategy ?f) * 1000000000))
             [0..<nat ((7200000000000 - 0) div (trade_interval (fund_strategy ?f) * 1000000000) + 1)]
           = [0, 3600000000000, 7200000000000]"
    by (simp add: p upt_rec)
  have "\<exists>vals h' calls.
          begin_backtest ?f 0 7200000000000 heap0 = Inr (vals, h', calls)
        \<and> step_times calls
            = map (\<lambda>k. 0 + int k * (trade_interval (fund_strategy ?f) * 1000000000))
                [0..<nat ((7200000000000 - 0) div (trade_interval (fund_strategy ?f) * 1000000000) + 1)]
        \<and> length vals = length (step_times calls)"
    using begin_backtest_timestamps [OF a1 a2 a3 a4 a5 a6 a7, of heap0] by (rule conjunct2)
  then obtain vals h' calls where r: "begin_backtest ?f 0 7200000000000 heap0 = Inr (vals, h', calls)"
    and t: "step_times calls = [0, 3600000000000, 7200000000000]"
    and l: "length vals = length (step_times calls)"
    unfolding g by blast
  have "length vals = 3"
    using l t by simp
  then show ?thesis
    using a1 r t by blast
qed

text \<open>
  C7, as the spec states it, fails for a trade interval of zero: the range cannot be
  generated, \<open>begin_backtest\<close> raises and no step is made. It fails as well for a start
  beyond the last instant a \<open>pd.Timestamp\<close> can hold, which is refused.
\<close>

theorem begin_backtest_zero_interval_raises:
  "begin_backtest (Fund (idler\<lparr>trade_interval := 0\<rparr>) adapter0) 0 7200000000000 heap0
     = Inl ZeroDivisionError
   \<and> begin_backtest (Fund idler adapter0) 9223372036854775808 9223372036854775808 heap0
     = Inl OutOfBoundsDatetime"
  by (simp add: begin_backtest_def Timestamp_def date_range_def Fund_def idler_def)

text \<open>
  C10, as the code has it. With a positive trade interval, and a start and an end that a
  \<open>pd.Timestamp\<close> can hold, a start later than the end makes \<open>begin_backtest\<close> return without
  an error, yield no value, make no call (so never enter \<open>step\<close>) and leave the store as
  it was.
\<close>

theorem begin_backtest_start_after_end:
  assumes "0 < trade_interval (fund_strategy self)"
      and "trade_interval (fund_strategy self) * 1000000000 < 2 ^ 63"
      and "- (2 ^ 63) < start" and "start < 2 ^ 63"
      and "- (2 ^ 63) < end" and "end < 2 ^ 63"
      and "end < start"
  shows "begin_backtest self start end h = Inr ([], h, [])"
  using assms by (simp add: begin_backtest_def Timestamp_def date_range_def Let_def)

theorem begin_backtest_start_after_end_witness:
  "0 < trade_interval (fund_strategy (Fund meddler adapter0 :: (int, string) fund))
   \<and> (3600000000000::int) < 7200000000000
   \<and> begin_backtest (Fund meddler adapter0) 7200000000000 3600000000000 heap0 = Inr ([], heap0, [])"
proof -
  let ?f = "Fund meddler adapter0 :: (int, string) fund"
  have p: "trade_interval (fund_strategy ?f) = 3600"
    by (simp add: Fund_def meddler_def)
  have a1: "0 < trade_interval (fund_strategy ?f)"
    and a2: "trade_interval (fund_strategy ?f) * 1000000000 < 2 ^ 63"
    by (simp_all add: p)
  have a3: "- (2 ^ 63) < (7200000000000::int)" and a4: "(7200000000000::int) < 2 ^ 63"
    and a5: "- (2 ^ 63) < (3600000000000::int)" and a6: "(3600000000000::int) < 2 ^ 63"
    and a7: "(3600000000000::int) < 7200000000000"
    by simp_all
  show ?thesis
    using a1 a7 begin_backtest_start_after_end [OF a1 a2 a3 a4 a5 a6 a7, of heap0] by simp
qed

text \<open>
  C10, as the spec states it, fails when the trade interval is not positive. With an
  interval of -3600 seconds, a start at 02:00:00 and an end at 01:00:00 the steps are made,
  at 02:00:00 and then at 01:00:00: the range runs backwards. With an interval of zero
  \<open>begin_backtest\<close> raises, and so it does for a start beyond the last instant a
  \<open>pd.Timestamp\<close> can hold.
\<close>

theorem begin_backtest_start_after_end_not_empty:
  "\<not> isl (begin_backtest (Fund (idler\<lparr>trade_interval := - 3600\<rparr>) adapter0)
             7200000000000 3600000000000 heap0)
   \<and> step_times (snd (snd (projr (begin_backtest (Fund (idler\<lparr>trade_interval := - 3600\<rparr>) adapter0)
                                     7200000000000 3600000000000 heap0))))
       = [7200000000000, 3600000000000]
   \<and> begin_backtest (Fund (idler\<lparr>trade_interval := 0\<rparr>) adapter0) 7200000000000 3600000000000 heap0
       = Inl ZeroDivisionError
   \<and> begin_backtest (Fund idler adapter0) 9223372036854775808 0 heap0 = Inl OutOfBoundsDatetime"
proof -
  let ?f = "Fund (idler\<lparr>trade_interval := - 3600\<rparr>) adapter0 :: (int, string) fund"
  have d: "date_range 7200000000000 3600000000000 (trade_interval (fund_strategy ?f))
           = Inr [7200000000000, 3600000000000]"
    by (simp add: date_range_def Fund_def idler_def)
  have b: "begin_backtest ?f 7200000000000 3600000000000 heap0
           = Inr (run_steps ?f [7200000000000, 3600000000000] heap0)"
    using d by (simp add: begin_backtest_def Timestamp_def)
  have z: "begin_backtest (Fund (idler\<lparr>trade_interval := 0\<rparr>) adapter0) 7200000000000 3600000000000 heap0
           = Inl ZeroDivisionError"
    by (simp add: begin_backtest_def Timestamp_def date_range_def Fund_def idler_def)
  have o: "begin_backtest (Fund idler adapter0) 9223372036854775808 0 heap0 = Inl OutOfBoundsDatetime"
    by (simp add: begin_backtest_def Timestamp_def)
  show ?thesis
    using b z o run_steps_times [of ?f "[7200000000000, 3600000000000]" heap0] by simp
qed

section \<open>Properties of the live driver\<close>

lemma py_mod_bounds:
  assumes "0 < y"
  shows "0 \<le> py_mod x y \<and> py_mod x y < y"
proof -
  have "of_int \<lfloor>x / y\<rfloor> \<le> x / y" and "x / y < of_int \<lfloor>x / y\<rfloor> + 1"
    by linarith+
  then have "of_int \<lfloor>x / y\<rfloor> * y \<le> x" and "x < (of_int \<lfloor>x / y\<rfloor> + 1) * y"
    using assms by (simp_all only: pos_le_divide_eq pos_divide_less_eq)
  then show ?thesis
    by (simp add: py_mod_def algebra_simps)
qed

lemma sleep_for_grid:
  assumes "0 < P" and "sleep_for P now start_time = Inr d"
  shows "d = of_int P - py_mod (now - start_time) (of_int P)
       \<and> 0 < d \<and> d \<le> of_int P
       \<and> now + d - start_time = of_int P * of_int (\<lfloor>(now - start_time) / of_int P\<rfloor> + 1)"
proof -
  have d: "d = of_int P - py_mod (now - start_time) (of_int P)"
    using assms by (simp add: sleep_for_def)
  have "0 \<le> py_mod (now - start_time) (of_int P) \<and> py_mod (now - start_time) (of_int P) < of_int P"
    using assms(1) by (intro py_mod_bounds) simp
  moreover have "now + d - start_time = of_int P * of_int (\<lfloor>(now - start_time) / of_int P\<rfloor> + 1)"
    unfolding d by (simp add: py_mod_def algebra_simps)
  ultimately show ?thesis using d by simp
qed

lemma run_live_loop_ticks:
  assumes "0 < trade_interval (fund_strategy self)"
  shows "run_live_loop self e start_time busy st = (ticks, err, st') \<Longrightarrow> tk \<in> set ticks \<Longrightarrow>
         sleep_for (trade_interval (fund_strategy self)) (woke_from tk) start_time = Inr (slept tk)"
proof (induction busy arbitrary: st ticks err st')
  case Nil
  then show ?case by simp
next
  case (Cons b busy)
  obtain clock db h where st: "st = (clock, db, h)" by (cases st) auto
  obtain oerr db1 out where sc: "scrape_latest e db = (oerr, db1, out)"
    by (cases "scrape_latest e db") auto
  obtain usd h1 calls where sp: "step self clock h = (usd, h1, calls)"
    by (cases "step self clock h") auto
  show ?case
  proof (cases oerr)
    case (Some x)
    then show ?thesis using Cons.prems sc unfolding st by simp
  next
    case None
    show ?thesis
    proof (cases "sleep_for (trade_interval (fund_strategy self)) (clock + b) start_time")
      case (Inl x)
      then show ?thesis using Cons.prems sc sp None unfolding st by simp
    next
      case (Inr d)
      show ?thesis
      proof (cases "d < 0")
        case True
        then show ?thesis using Cons.prems sc sp None Inr unfolding st by simp
      next
        case False
        obtain ticks1 err1 st1 where r: "run_live_loop self e start_time busy (clock + b + d, db1, h1) = (ticks1, err1, st1)"
          by (cases "run_live_loop self e start_time busy (clock + b + d, db1, h1)") auto
        have t: "ticks = \<lparr>cur_time = clock, usd_val = usd, woke_from = clock + b, slept = d\<rparr> # ticks1"
          using Cons.prems(1) sc sp None Inr False r unfolding st by simp
        show ?thesis
        proof (cases "tk \<in> set ticks1")
          case True
          then show ?thesis using Cons.IH [OF r] by simp
        next
          case False
          then have "tk = \<lparr>cur_time = clock, usd_val = usd, woke_from = clock + b, slept = d\<rparr>"
            using Cons.prems(2) t by simp
          then show ?thesis using Inr by simp
        qed
      qed
    qed
  qed
qed


text \<open>
  C8. In every iteration of the live loop that reaches its \<open>sleep\<close>, the time slept is the
  interval less \<open>(now - loop_start) mod interval\<close>, \<open>now\<close> being the clock after the step and
  \<open>loop_start\<close> the clock when the loop was entered. For a positive interval it is positive
  and at most the interval, and the loop wakes a whole number of intervals after
  \<open>loop_start\<close>. With an interval of 60 and a step that ends 5 seconds after \<open>loop_start\<close>,
  the time slept is 55.
\<close>

theorem run_live_sleep_duration:
  assumes "0 < trade_interval (fund_strategy self)"
      and "run_live self e start_time busy db h = (ticks, err, st)"
      and "tk \<in> set ticks"
  shows "slept tk
           = real_of_int (trade_interval (fund_strategy self))
             - py_mod (woke_from tk - start_time) (real_of_int (trade_interval (fund_strategy self)))
       \<and> 0 < slept tk
       \<and> slept tk \<le> real_of_int (trade_interval (fund_strategy self))
       \<and> woke_from tk + slept tk - start_time
           = real_of_int (trade_interval (fund_strategy self))
             * of_int (\<lfloor>(woke_from tk - start_time) / real_of_int (trade_interval (fund_strategy self))\<rfloor> + 1)"
proof -
  have "sleep_for (trade_interval (fund_strategy self)) (woke_from tk) start_time = Inr (slept tk)"
    using run_live_loop_ticks [OF assms(1), of e start_time busy "(start_time, db, h)" ticks err st tk]
      assms(2,3)
    by (simp add: run_live_def)
  then show ?thesis
    using sleep_for_grid [OF assms(1)] by blast
qed

lemma run_live_idler:
  "\<lparr>cur_time = 1000, usd_val = 1000, woke_from = 1005, slept = 55\<rparr>
     \<in> set (fst (run_live (Fund idler adapter0) env0 1000 [5] db0 heap0))"
  by code_simp

theorem run_live_sleep_duration_witness:
  "0 < trade_interval (fund_strategy (Fund idler adapter0 :: (real, string) fund))
   \<and> \<lparr>cur_time = 1000, usd_val = 1000, woke_from = 1000 + 5, slept = 55\<rparr>
         \<in> set (fst (run_live (Fund idler adapter0) env0 1000 [5] db0 heap0))
   \<and> (55::real) = 60 - py_mod (1000 + 5 - 1000) 60
   \<and> (1000::real) + 5 + 55 - 1000 = 60 * 1"
proof -
  let ?f = "Fund idler adapter0 :: (real, string) fund"
  let ?r = "run_live ?f env0 1000 [5] db0 heap0"
  let ?tk = "\<lparr>cur_time = 1000, usd_val = 1000, woke_from = 1005, slept = 55\<rparr>"
  have i: "0 < trade_interval (fund_strategy ?f)"
    by (simp add: Fund_def idler_def)
  have r: "?r = (fst ?r, fst (snd ?r), snd (snd ?r))"
    by simp
  have t: "?tk \<in> set (fst ?r)"
    by (rule run_live_idler)
  have p: "trade_interval (fund_strategy ?f) = 60"
    by (simp add: Fund_def idler_def)
  show ?thesis
    using i t run_live_sleep_duration [OF i r t] unfolding p by simp
qed

section \<open>Properties of a step\<close>

lemma refs_of_copy_obj: "b \<in> set (refs_of (copy_obj n vis obj)) \<Longrightarrow> n \<le> b"
proof -
  have v: "\<And>v. b \<in> set (refs_of_val (copy_val n vis v)) \<Longrightarrow> n \<le> b"
  proof -
    fix v show "b \<in> set (refs_of_val (copy_val n vis v)) \<Longrightarrow> n \<le> b"
      by (cases v) auto
  qed
  assume "b \<in> set (refs_of (copy_obj n vis obj))"
  then show ?thesis
    using v by (auto simp: refs_of_def copy_obj_def)
qed

lemma deepcopy_old:
  assumes "deepcopy r h = (cp, h2)"
  shows "length h \<le> length h2" and "a < length h \<Longrightarrow> h2 ! a = h ! a" and "length h \<le> cp"
  using assms by (auto simp: deepcopy_def Let_def nth_append)

lemma deepcopy_new_cell:
  assumes "deepcopy r h = (cp, h2)" and "length h \<le> a" and "a < length h2"
  shows "h2 ! a = copy_obj (length h) (visit h [r] []) (h ! (visit h [r] [] ! (a - length h)))"
  using assms by (auto simp: deepcopy_def Let_def nth_append)

lemma deepcopy_fresh:
  assumes "deepcopy r h = (cp, h2)" and "reaches h2 cp a"
  shows "length h \<le> a"
  using assms(2)
proof (induction rule: reaches.induct)
  case reaches_root
  show ?case using deepcopy_old(3) [OF assms(1)] .
next
  case (reaches_step a b)
  have "h2 ! a = copy_obj (length h) (visit h [r] []) (h ! (visit h [r] [] ! (a - length h)))"
    using deepcopy_new_cell [OF assms(1) reaches_step.IH reaches_step.hyps(2)] .
  then have "b \<in> set (refs_of (copy_obj (length h) (visit h [r] []) (h ! (visit h [r] [] ! (a - length h)))))"
    using reaches_step.hyps(3) by simp
  then show ?case
    by (rule refs_of_copy_obj)
qed

lemma step_stages:
  assumes "get_market_state (fund_market_adapter self) t h = (market_state, h1)"
      and "deepcopy market_state h1 = (copied_market_state, h2)"
      and "propose_trades (fund_strategy self) copied_market_state (fund_market_history self) h2
             = (proposed_trades, h3)"
  shows "truthy proposed_trades \<Longrightarrow>
           step self t h
           = (estimate_total_value_usd (fund_market_adapter self)
                (filter_and_execute (fund_market_adapter self) (the proposed_trades) h3),
              filter_and_execute (fund_market_adapter self) (the proposed_trades) h3,
              [GetMarketState t, ProposeTrades copied_market_state (fund_market_history self),
               FilterAndExecute (the proposed_trades), EstimateTotalValueUsd])"
    and "\<not> truthy proposed_trades \<Longrightarrow>
           step self t h
           = (estimate_total_value_usd (fund_market_adapter self) h3, h3,
              [GetMarketState t, ProposeTrades copied_market_state (fund_market_history self),
               EstimateTotalValueUsd])"
proof -
  show "truthy proposed_trades \<Longrightarrow>
           step self t h
           = (estimate_total_value_usd (fund_market_adapter self)
                (filter_and_execute (fund_market_adapter self) (the proposed_trades) h3),
              filter_and_execute (fund_market_adapter self) (the proposed_trades) h3,
              [GetMarketState t, ProposeTrades copied_market_state (fund_market_history self),
               FilterAndExecute (the proposed_trades), EstimateTotalValueUsd])"
    using assms by (cases proposed_trades rule: truthy.cases) (simp_all add: step_def)
  show "\<not> truthy proposed_trades \<Longrightarrow>
           step self t h
           = (estimate_total_value_usd (fund_market_adapter self) h3, h3,
              [GetMarketState t, ProposeTrades copied_market_state (fund_market_history self),
               EstimateTotalValueUsd])"
    using assms by (cases proposed_trades rule: truthy.cases) (simp_all add: step_def)
qed

lemma strategy_frame:
  assumes "deepcopy market_state h1 = (copied_market_state, h2)"
      and "\<forall>a<length h2. \<not> reaches h2 copied_market_state a \<longrightarrow> h3 ! a = h2 ! a"
      and "a < length h1"
  shows "h3 ! a = h1 ! a"
proof -
  have "\<not> reaches h2 copied_market_state a"
    using deepcopy_fresh [OF assms(1), of a] assms(3) by auto
  moreover have "a < length h2"
    using deepcopy_old(1) [OF assms(1)] assms(3) by simp
  ultimately have "h3 ! a = h2 ! a"
    using assms(2) by simp
  then show ?thesis
    using deepcopy_old(2) [OF assms(1) assms(3)] by simp
qed

lemma deepcopy_heap0:
  "deepcopy 1 heap0 = (4, heap0 @ [[(''balances'', PRef 5), (''time'', PNone)], [(''BTC'', PNum 1)]])"
  by code_simp

text \<open>
  C9. \<open>step\<close> calls \<open>filter_and_execute\<close> exactly when the strategy's result is a list with at
  least one trade, once and with that list. When the strategy proposes nothing, \<open>step\<close>
  calls only \<open>get_market_state\<close>, \<open>propose_trades\<close> and the valuation, and the store it
  leaves is the one the strategy returned; the cells holding the balances, which
  \<open>get_market_state\<close> does not write and which a strategy writing only to its copy cannot
  reach, hold what they held before the step. In both cases the value returned is the
  adapter's valuation of the store the step leaves.
\<close>

theorem step_executes_iff_trades_proposed:
  assumes "get_market_state (fund_market_adapter self) t h = (market_state, h1)"
      and "deepcopy market_state h1 = (copied_market_state, h2)"
      and "propose_trades (fund_strategy self) copied_market_state (fund_market_history self) h2
             = (proposed_trades, h3)"
      and "\<forall>a<length h2. \<not> reaches h2 copied_market_state a \<longrightarrow> h3 ! a = h2 ! a"
      and "\<forall>a\<in>balances. a < length h1 \<and> h1 ! a = h ! a"
  shows "((\<exists>trades. FilterAndExecute trades \<in> set (snd (snd (step self t h)))) \<longleftrightarrow> truthy proposed_trades)
       \<and> (truthy proposed_trades \<longrightarrow>
            snd (snd (step self t h))
              = [GetMarketState t, ProposeTrades copied_market_state (fund_market_history self),
                 FilterAndExecute (the proposed_trades), EstimateTotalValueUsd]
          \<and> fst (snd (step self t h))
              = filter_and_execute (fund_market_adapter self) (the proposed_trades) h3)
       \<and> (\<not> truthy proposed_trades \<longrightarrow>
            snd (snd (step self t h))
              = [GetMarketState t, ProposeTrades copied_market_state (fund_market_history self),
                 EstimateTotalValueUsd]
          \<and> fst (snd (step self t h)) = h3
          \<and> (\<forall>a\<in>balances. fst (snd (step self t h)) ! a = h ! a))
       \<and> fst (step self t h)
           = estimate_total_value_usd (fund_market_adapter self) (fst (snd (step self t h)))"
proof (cases "truthy proposed_trades")
  case True
  show ?thesis
    using True step_stages(1) [OF assms(1,2,3) True] by simp
next
  case False
  have "\<forall>a\<in>balances. h3 ! a = h ! a"
    using strategy_frame [OF assms(2,4)] assms(5) by simp
  then show ?thesis
    using False step_stages(2) [OF assms(1,2,3) False] by simp
qed

theorem step_executes_iff_trades_proposed_witness:
  "get_market_state (fund_market_adapter (Fund idler adapter0 :: (int, string) fund)) 0 heap0 = (1, heap0)
   \<and> deepcopy 1 heap0 = (4, heap0 @ [[(''balances'', PRef 5), (''time'', PNone)], [(''BTC'', PNum 1)]])
   \<and> propose_trades (fund_strategy (Fund idler adapter0 :: (int, string) fund)) 4
        (fund_market_history (Fund idler adapter0 :: (int, string) fund))
        (heap0 @ [[(''balances'', PRef 5), (''time'', PNone)], [(''BTC'', PNum 1)]])
      = (Some [], heap0 @ [[(''balances'', PRef 5), (''time'', PNone)], [(''BTC'', PNum 1)]])
   \<and> 2 < length heap0
   \<and> snd (snd (step (Fund idler adapter0 :: (int, string) fund) 0 heap0))
        = [GetMarketState 0, ProposeTrades 4 3, EstimateTotalValueUsd]
   \<and> fst (snd (step (Fund idler adapter0 :: (int, string) fund) 0 heap0)) ! 2 = [(''BTC'', PNum 1)]
   \<and> fst (step (Fund idler adapter0 :: (int, string) fund) 0 heap0) = 1000"
proof -
  let ?f = "Fund idler adapter0 :: (int, string) fund"
  let ?h2 = "heap0 @ [[(''balances'', PRef 5), (''time'', PNone)], [(''BTC'', PNum 1)]]"
  have g: "get_market_state (fund_market_adapter ?f) 0 heap0 = (1, heap0)"
    by (simp add: Fund_def adapter0_def)
  have d: "deepcopy 1 heap0 = (4, ?h2)"
    by (rule deepcopy_heap0)
  have p: "propose_trades (fund_strategy ?f) 4 (fund_market_history ?f) ?h2 = (Some [], ?h2)"
    by (simp add: Fund_def idler_def)
  have fr: "\<forall>a<length ?h2. \<not> reaches ?h2 4 a \<longrightarrow> ?h2 ! a = ?h2 ! a"
    by simp
  have b: "\<forall>a\<in>{2}. a < length heap0 \<and> heap0 ! a = heap0 ! a"
    by (simp add: heap0_def)
  have m: "fund_market_history ?f = 3"
    by (simp add: Fund_def adapter0_def)
  have v: "estimate_total_value_usd (fund_market_adapter ?f) ?h2 = 1000"
    by (simp add: Fund_def adapter0_def heap0_def)
  have c: "?h2 ! 2 = [(''BTC'', PNum 1)]"
    by (simp add: heap0_def)
  show ?thesis
    using g d p b v c step_executes_iff_trades_proposed [OF g d p fr b] unfolding m by simp
qed

text \<open>
  C1. \<open>step\<close> hands the strategy the copy of the market state and, with it,
  \<open>self.market_history\<close>: the adapter's own market history, by reference and not copied.
  So the strategy does hold a reference into the adapter. \<open>tamperer\<close> writes to the market
  history and proposes no trade: after the step the adapter's market history is changed,
  nothing was executed, and the market state that the adapter produces next differs from
  the one it would have produced.
\<close>

theorem step_shares_market_history:
  "fund_market_history (Fund tamperer adapter1 :: (int, string) fund)
     = market_history (adapter1 :: (int, string) market_adapter)
   \<and> market_history (adapter1 :: (int, string) market_adapter) = 3
   \<and> heap0 ! 3 = []
   \<and> snd (snd (step (Fund tamperer adapter1 :: (int, string) fund) 0 heap0))
       = [GetMarketState 0, ProposeTrades 4 3, EstimateTotalValueUsd]
   \<and> fst (snd (step (Fund tamperer adapter1 :: (int, string) fund) 0 heap0)) ! 3
       = [(''client'', PStr ''tampered'')]
   \<and> snd (get_market_state (adapter1 :: (int, string) market_adapter) 1 heap0) ! 1
       = [(''balances'', PRef 2), (''charts'', PNone)]
   \<and> snd (get_market_state (adapter1 :: (int, string) market_adapter) 1
             (fst (snd (step (Fund tamperer adapter1 :: (int, string) fund) 0 heap0)))) ! 1
       = [(''balances'', PRef 2), (''charts'', PStr ''tampered'')]"
  by code_simp

section \<open>Properties of the scraper\<close>

text \<open>
  C5. The label under which a candle is looked up in the reference series is its date in
  the machine's local time (\<open>datetime.fromtimestamp\<close>), while the labels of the reference
  series are UTC (\<open>pd.to_datetime\<close> of the milliseconds). In \<open>env2\<close>, a machine two hours
  ahead of UTC, the candle dated 900 gets the label 8100 and is priced with the reference
  sample at 1000, which is later than the candle: 1/2 * 2000 = 1000. The last sample at
  or before 900 is the one at 0, which gives 1/2 * 1000 = 500, as \<open>env0\<close>, the same on a
  machine on UTC, does.
\<close>

theorem historical_prices_of_uses_later_sample:
  "utc_offset env2 = 7200
   \<and> returnChartData env2 ''BTC_ETH'' 900 0 2000 = Inr candles0
   \<and> candles0 ! 0 = [(''date'', Fin 900), (''volume'', Fin 10), (''weightedAverage'', Fin (1 / 2))]
   \<and> index btc0 = [0, 1000]
   \<and> map_of (columns btc0) ''price_usd'' = Some [Fin 1000, Fin 2000]
   \<and> contemporary_usd_price btc0 (fromtimestamp (utc_offset env2) 900, candles0 ! 0) = Inr (Fin 1000)
   \<and> historical_prices_of env2 btc0 ''BTC_ETH'' 900 0 2000
       = Inr [\<lparr>measurement = ''scrapedChart'', currencyPair = ''BTC_ETH'', time = 8100,
               chart_fields = [(''volume'', Fin 10), (''weightedAverage'', Fin (1 / 2)),
                               (''price_usd'', Fin 1000)]\<rparr>]
   \<and> historical_prices_of env0 btc0 ''BTC_ETH'' 900 0 2000
       = Inr [\<lparr>measurement = ''scrapedChart'', currencyPair = ''BTC_ETH'', time = 900,
               chart_fields = [(''volume'', Fin 10), (''weightedAverage'', Fin (1 / 2)),
                               (''price_usd'', Fin 500)]\<rparr>]"
  by code_simp

lemma map_of_row:
  "map_of (map (\<lambda>(c, vs). (c, vs ! i)) cols) k = map_option (\<lambda>vs. vs ! i) (map_of cols k)"
  by (induction cols) auto


lemma map_of_dropped:
  "map_of (filter (\<lambda>(c, vs). c \<notin> set keys) cols) k = (if k \<in> set keys then None else map_of cols k)"
  by (induction cols) auto


lemma map_of_replaced:
  "map_of (map (\<lambda>(c, vs). if c = key then (c, vals) else (c, vs)) cols) k
   = (if k = key then (if key \<in> set (map fst cols) then Some vals else None) else map_of cols k)"
  by (induction cols) (auto simp: rev_image_eqI)

lemma map_of_set_column:
  "map_of (columns (set_column df key vals)) = (map_of (columns df))(key \<mapsto> vals)"
proof (cases "key \<in> set (map fst (columns df))")
  case True
  show ?thesis
  proof (rule ext)
    fix k show "map_of (columns (set_column df key vals)) k = ((map_of (columns df))(key \<mapsto> vals)) k"
      using True by (simp add: set_column_def map_of_replaced)
  qed
next
  case False
  then have none: "map_of (columns df) key = None"
    by (simp add: map_of_eq_None_iff)
  show ?thesis
  proof (rule ext)
    fix k show "map_of (columns (set_column df key vals)) k = ((map_of (columns df))(key \<mapsto> vals)) k"
      using False none by (simp add: set_column_def map_add_def split: option.splits)
  qed
qed


lemma length_iterrows: "length (iterrows df) = length (index df)"
  by (simp add: iterrows_def)

lemma nth_iterrows:
  "i < length (index df) \<Longrightarrow>
   iterrows df ! i = (index df ! i, map (\<lambda>(c, vs). (c, vs ! i)) (columns df))"
  by (simp add: iterrows_def)


lemma drop_columns_present:
  assumes "set keys \<subseteq> set (map fst (columns df))"
  shows "drop_columns df keys = Inr (df\<lparr>columns := filter (\<lambda>(c, vs). c \<notin> set keys) (columns df)\<rparr>)"
proof -
  have "filter (\<lambda>k. k \<notin> set (map fst (columns df))) keys = []"
    using assms by (auto simp: filter_empty_conv)
  then show ?thesis
    by (simp add: drop_columns_def)
qed
















lemma map_of_renamed:
  assumes "map_of cols new = None" and "key \<noteq> new"
  shows "map_of (map (\<lambda>(c, vs). (if c = key then new else c, vs)) cols) k
         = (if k = new then map_of cols key else if k = key then None else map_of cols k)"
  using assms by (induction cols) (auto split: if_splits)

lemma in_columns: "map_of cols k = Some vs \<Longrightarrow> k \<in> set (map fst cols)"
proof -
  assume "map_of cols k = Some vs"
  then have "(k, vs) \<in> set cols"
    by (rule map_of_SomeD)
  then have "fst (k, vs) \<in> fst ` set cols"
    by (rule imageI)
  then show ?thesis
    by simp
qed

lemma fdiv_ratio:
  "pu \<noteq> 0 \<Longrightarrow> pb \<noteq> 0 \<Longrightarrow> fdiv (Fin vu) (fdiv (Fin pu) (Fin pb)) = Fin (vu / (pu / pb))"
  by simp

lemma marshall_columns:
  assumes pu: "map_of (columns hist_df) ''price_usd'' = Some price_usd"
      and pb: "map_of (columns hist_df) ''price_btc'' = Some price_btc"
      and vu: "map_of (columns hist_df) ''volume_usd'' = Some volume_usd"
      and cap: "map_of (columns hist_df) ''market_cap_by_available_supply'' = Some cap"
      and wa: "map_of (columns hist_df) ''weightedAverage'' = None"
  shows "\<exists>btc_rows. marshall hist_df ''price_usd'' = Inr btc_rows
         \<and> index btc_rows = index hist_df
         \<and> (\<forall>k. map_of (columns btc_rows) k
                = (if k = ''weightedAverage'' then Some price_usd
                   else if k = ''price_usd'' \<or> k = ''market_cap_by_available_supply'' \<or> k = ''volume_usd''
                   then None
                   else if k = ''volume'' then Some (map2 fdiv volume_usd (map2 fdiv price_usd price_btc))
                   else map_of (columns hist_df) k))"
proof -
  let ?drop = "[''market_cap_by_available_supply'', ''volume_usd'']"
  define vol where "vol = map2 fdiv volume_usd (map2 fdiv price_usd price_btc)"
  define df1 where "df1 = set_column hist_df ''volume'' vol"
  define df2 where "df2 = df1\<lparr>columns := filter (\<lambda>(c, vs). c \<notin> set ?drop) (columns df1)\<rparr>"
  define out where "out = rename_column df2 ''price_usd'' ''weightedAverage''"
  have m1: "map_of (columns df1) = (map_of (columns hist_df))(''volume'' \<mapsto> vol)"
    unfolding df1_def by (rule map_of_set_column)
  have "map_of (columns df1) ''market_cap_by_available_supply'' = Some cap"
    using cap by (simp add: m1)
  then have i1: "''market_cap_by_available_supply'' \<in> set (map fst (columns df1))"
    by (rule in_columns)
  have "map_of (columns df1) ''volume_usd'' = Some volume_usd"
    using vu by (simp add: m1)
  then have "''volume_usd'' \<in> set (map fst (columns df1))"
    by (rule in_columns)
  then have "set ?drop \<subseteq> set (map fst (columns df1))"
    using i1 by simp
  then have dr: "drop_columns df1 ?drop = Inr df2"
    unfolding df2_def by (rule drop_columns_present)
  have c2: "columns df2 = filter (\<lambda>(c, vs). c \<notin> set ?drop) (columns df1)"
    by (simp add: df2_def)
  have m2: "\<And>k. map_of (columns df2) k
      = (if k \<in> set ?drop then None else ((map_of (columns hist_df))(''volume'' \<mapsto> vol)) k)"
    by (simp only: c2 map_of_dropped m1)
  have none: "map_of (columns df2) ''weightedAverage'' = None"
    using wa by (simp add: m2)
  have c3: "columns out = map (\<lambda>(c, vs). (if c = ''price_usd'' then ''weightedAverage'' else c, vs)) (columns df2)"
    by (simp add: out_def rename_column_def)
  have m3: "\<And>k. map_of (columns out) k
      = (if k = ''weightedAverage'' then map_of (columns df2) ''price_usd''
         else if k = ''price_usd'' then None else map_of (columns df2) k)"
    unfolding c3 by (rule map_of_renamed [OF none]) simp
  have ms: "marshall hist_df ''price_usd'' = Inr out"
    using pu pb vu dr by (simp add: marshall_def get_column_def Let_def out_def df1_def vol_def)
  have ix: "index out = index hist_df"
    by (simp add: out_def df2_def df1_def rename_column_def set_column_def)
  have "\<forall>k. map_of (columns out) k
                = (if k = ''weightedAverage'' then Some price_usd
                   else if k = ''price_usd'' \<or> k = ''market_cap_by_available_supply'' \<or> k = ''volume_usd''
                   then None
                   else if k = ''volume'' then Some vol
                   else map_of (columns hist_df) k)"
    using pu by (simp add: m3 m2)
  then show ?thesis
    using ms ix unfolding vol_def by blast
qed


text \<open>
  C6, as the code has it. \<open>marshall\<close> is called with \<open>key = 'price_usd'\<close>, so it is the USD price
  that is renamed to \<open>weightedAverage\<close>. In every row written under \<open>USD_BTC\<close> the volume is
  \<open>volume_usd / (price_usd / price_btc)\<close> of the same row of the input (for numbers with
  \<open>price_usd\<close> and \<open>price_btc\<close> not zero, exactly that quotient), \<open>weightedAverage\<close> is the input's
  \<open>price_usd\<close>, \<open>price_btc\<close> is kept, and \<open>market_cap_by_available_supply\<close>, \<open>volume_usd\<close> and
  \<open>price_usd\<close> are absent.
\<close>

theorem marshall_reconciliation:
  assumes "map_of (columns hist_df) ''price_usd'' = Some price_usd"
      and "map_of (columns hist_df) ''price_btc'' = Some price_btc"
      and "map_of (columns hist_df) ''volume_usd'' = Some volume_usd"
      and "map_of (columns hist_df) ''market_cap_by_available_supply'' = Some cap"
      and "map_of (columns hist_df) ''weightedAverage'' = None"
      and "length price_usd = length (index hist_df)"
      and "length price_btc = length (index hist_df)"
      and "length volume_usd = length (index hist_df)"
      and "i < length (index hist_df)"
  shows "\<exists>btc_rows.
           marshall hist_df ''price_usd'' = Inr btc_rows
         \<and> index btc_rows = index hist_df
         \<and> map_of (chart_fields (scraped_chart ''USD_BTC'' (iterrows btc_rows ! i))) ''volume''
             = Some (fdiv (volume_usd ! i) (fdiv (price_usd ! i) (price_btc ! i)))
         \<and> (\<forall>a b c. volume_usd ! i = Fin a \<and> price_usd ! i = Fin b \<and> price_btc ! i = Fin c
                    \<and> b \<noteq> 0 \<and> c \<noteq> 0 \<longrightarrow>
                map_of (chart_fields (scraped_chart ''USD_BTC'' (iterrows btc_rows ! i))) ''volume''
                  = Some (Fin (a / (b / c))))
         \<and> map_of (chart_fields (scraped_chart ''USD_BTC'' (iterrows btc_rows ! i))) ''weightedAverage''
             = Some (price_usd ! i)
         \<and> map_of (chart_fields (scraped_chart ''USD_BTC'' (iterrows btc_rows ! i))) ''price_btc''
             = Some (price_btc ! i)
         \<and> map_of (chart_fields (scraped_chart ''USD_BTC'' (iterrows btc_rows ! i))) ''price_usd'' = None
         \<and> map_of (chart_fields (scraped_chart ''USD_BTC'' (iterrows btc_rows ! i)))
               ''market_cap_by_available_supply'' = None
         \<and> map_of (chart_fields (scraped_chart ''USD_BTC'' (iterrows btc_rows ! i))) ''volume_usd'' = None"
proof -
  let ?vol = "map2 fdiv volume_usd (map2 fdiv price_usd price_btc)"
  obtain btc_rows where m: "marshall hist_df ''price_usd'' = Inr btc_rows"
    and ix: "index btc_rows = index hist_df"
    and cols: "\<And>k. map_of (columns btc_rows) k
                = (if k = ''weightedAverage'' then Some price_usd
                   else if k = ''price_usd'' \<or> k = ''market_cap_by_available_supply'' \<or> k = ''volume_usd''
                   then None
                   else if k = ''volume'' then Some ?vol
                   else map_of (columns hist_df) k)"
    using marshall_columns [OF assms(1,2,3,4,5)] by blast
  let ?f = "map_of (chart_fields (scraped_chart ''USD_BTC'' (iterrows btc_rows ! i)))"
  have f: "\<And>k. ?f k = map_option (\<lambda>vs. vs ! i) (map_of (columns btc_rows) k)"
    using assms(9) ix by (simp add: scraped_chart_def nth_iterrows map_of_row)
  have v: "?vol ! i = fdiv (volume_usd ! i) (fdiv (price_usd ! i) (price_btc ! i))"
    using assms(6,7,8,9) by simp
  have f1: "?f ''volume'' = Some (fdiv (volume_usd ! i) (fdiv (price_usd ! i) (price_btc ! i)))"
    using v by (simp add: f cols)
  have f2: "\<forall>a b c. volume_usd ! i = Fin a \<and> price_usd ! i = Fin b \<and> price_btc ! i = Fin c
                    \<and> b \<noteq> 0 \<and> c \<noteq> 0 \<longrightarrow> ?f ''volume'' = Some (Fin (a / (b / c)))"
    using f1 by (simp add: fdiv_ratio)
  have f3: "?f ''weightedAverage'' = Some (price_usd ! i)"
    by (simp add: f cols)
  have f4: "?f ''price_btc'' = Some (price_btc ! i)"
    using assms(2) by (simp add: f cols)
  have f5: "?f ''price_usd'' = None" and f6: "?f ''market_cap_by_available_supply'' = None"
    and f7: "?f ''volume_usd'' = None"
    by (simp_all add: f cols)
  show ?thesis
    using m ix f1 f2 f3 f4 f5 f6 f7 by blast
qed

lemma marshall_btc0:
  "marshall btc0 ''price_usd''
   = Inr \<lparr>index = [0, 1000],
          columns = [(''price_btc'', [Fin 1, Fin 1]),
                     (''weightedAverage'', [Fin 1000, Fin 2000]),
                     (''volume'', [Fin 5, Fin 4])]\<rparr>"
  by code_simp

theorem marshall_reconciliation_witness:
  "map_of (columns btc0) ''price_usd'' = Some [Fin 1000, Fin 2000]
   \<and> map_of (columns btc0) ''price_btc'' = Some [Fin 1, Fin 1]
   \<and> map_of (columns btc0) ''volume_usd'' = Some [Fin 5000, Fin 8000]
   \<and> map_of (columns btc0) ''market_cap_by_available_supply'' = Some [Fin 100, Fin 110]
   \<and> map_of (columns btc0) ''weightedAverage'' = None
   \<and> (1::nat) < length (index btc0)
   \<and> (\<exists>btc_rows.
         marshall btc0 ''price_usd'' = Inr btc_rows
       \<and> map_of (chart_fields (scraped_chart ''USD_BTC'' (iterrows btc_rows ! 1))) ''volume''
           = Some (Fin (8000 / (2000 / 1)))
       \<and> map_of (chart_fields (scraped_chart ''USD_BTC'' (iterrows btc_rows ! 1))) ''weightedAverage''
           = Some (Fin 2000)
       \<and> map_of (chart_fields (scraped_chart ''USD_BTC'' (iterrows btc_rows ! 1))) ''price_usd'' = None)"
proof -
  have a1: "map_of (columns btc0) ''price_usd'' = Some [Fin 1000, Fin 2000]"
    and a2: "map_of (columns btc0) ''price_btc'' = Some [Fin 1, Fin 1]"
    and a3: "map_of (columns btc0) ''volume_usd'' = Some [Fin 5000, Fin 8000]"
    and a4: "map_of (columns btc0) ''market_cap_by_available_supply'' = Some [Fin 100, Fin 110]"
    and a5: "map_of (columns btc0) ''weightedAverage'' = None"
    and a6: "length [Fin 1000, Fin 2000] = length (index btc0)"
    and a7: "length [Fin 1, Fin 1 :: pyfloat] = length (index btc0)"
    and a8: "length [Fin 5000, Fin 8000] = length (index btc0)"
    and a9: "(1::nat) < length (index btc0)"
    by (simp_all add: btc0_def)
  obtain btc_rows where m: "marshall btc0 ''price_usd'' = Inr btc_rows"
    and v: "map_of (chart_fields (scraped_chart ''USD_BTC'' (iterrows btc_rows ! 1))) ''volume''
             = Some (fdiv ([Fin 5000, Fin 8000] ! 1) (fdiv ([Fin 1000, Fin 2000] ! 1) ([Fin 1, Fin 1] ! 1)))"
    and w: "map_of (chart_fields (scraped_chart ''USD_BTC'' (iterrows btc_rows ! 1))) ''weightedAverage''
             = Some ([Fin 1000, Fin 2000] ! 1)"
    and p: "map_of (chart_fields (scraped_chart ''USD_BTC'' (iterrows btc_rows ! 1))) ''price_usd'' = None"
    using marshall_reconciliation [OF a1 a2 a3 a4 a5 a6 a7 a8 a9] by blast
  have "marshall btc0 ''price_usd'' = Inr btc_rows
       \<and> map_of (chart_fields (scraped_chart ''USD_BTC'' (iterrows btc_rows ! 1))) ''volume''
           = Some (Fin (8000 / (2000 / 1)))
       \<and> map_of (chart_fields (scraped_chart ''USD_BTC'' (iterrows btc_rows ! 1))) ''weightedAverage''
           = Some (Fin 2000)
       \<and> map_of (chart_fields (scraped_chart ''USD_BTC'' (iterrows btc_rows ! 1))) ''price_usd'' = None"
    using m v w p by simp
  then show ?thesis
    using a1 a2 a3 a4 a5 a9 by blast
qed

text \<open>
  C6, as the spec states it, fails: on the reference history \<open>btc0\<close> the rows written under
  \<open>USD_BTC\<close> have the fields \<open>price_btc\<close>, \<open>weightedAverage\<close> and \<open>volume\<close>, and no \<open>price_usd\<close>.
\<close>

theorem marshall_output_has_no_price_usd:
  "marshall btc0 ''price_usd''
     = Inr \<lparr>index = [0, 1000],
            columns = [(''price_btc'', [Fin 1, Fin 1]),
                       (''weightedAverage'', [Fin 1000, Fin 2000]),
                       (''volume'', [Fin 5, Fin 4])]\<rparr>
   \<and> map (scraped_chart ''USD_BTC'')
         (iterrows \<lparr>index = [0, 1000],
                    columns = [(''price_btc'', [Fin 1, Fin 1]),
                               (''weightedAverage'', [Fin 1000, Fin 2000]),
                               (''volume'', [Fin 5, Fin 4])]\<rparr>)
     = [\<lparr>measurement = ''scrapedChart'', currencyPair = ''USD_BTC'', time = 0,
          chart_fields = [(''price_btc'', Fin 1), (''weightedAverage'', Fin 1000), (''volume'', Fin 5)]\<rparr>,
        \<lparr>measurement = ''scrapedChart'', currencyPair = ''USD_BTC'', time = 1000,
          chart_fields = [(''price_btc'', Fin 1), (''weightedAverage'', Fin 2000), (''volume'', Fin 4)]\<rparr>]
   \<and> map_of [(''price_btc'', Fin 1), (''weightedAverage'', Fin 1000), (''volume'', Fin 5)] ''price_usd''
     = None"
  by code_simp

text \<open>
  C2. The loop over the markets has no handler: the \<open>try\<close> and \<open>except\<close> around its body
  are commented out, so the failure of one pair leaves the loop and ends the run. In
  \<open>env1\<close> the exchange fails on \<open>BTC_ETH\<close> and would answer for \<open>BTC_XMR\<close>, the pair after it;
  the run ends with the failure of \<open>BTC_ETH\<close>, the store holds nothing of \<open>BTC_XMR\<close> or of
  \<open>USD_BTC\<close> (it is as it was) and nothing is printed.
\<close>

theorem scrape_does_not_continue_after_failure:
  "returnTicker env1 = Inr [''BTC_ETH'', ''BTC_XMR'']
   \<and> returnChartData env1 ''BTC_ETH'' 900 0 2000 = Inl (UpstreamFetchFailure ''BTC_ETH'')
   \<and> returnChartData env1 ''BTC_XMR'' 900 0 2000 = Inr candles0
   \<and> scrape_since_last_reading env1 db0 = (Some (UpstreamFetchFailure ''BTC_ETH''), db0, [])"
  by code_simp

text \<open>
  C3. On a store with no point the run raises: \<open>list(latest_result.get_points())[0]\<close> is
  \<open>IndexError\<close>, before any pair is fetched, and nothing is written or printed.
\<close>

theorem scrape_empty_store_raises:
  "query_latest env0 [] = Inr []
   \<and> scrape_since_last_reading env0 [] = (Some IndexError, [], [])"
  by code_simp

end
